theory Spec2Isabelle
  imports Main "HOL-Library.Product_Lexorder"
begin

section \<open>Dates, times and durations\<close>

text \<open>
  The models compare, subtract and add values of Python's \<^verbatim>\<open>datetime\<close> type. A
  \<^verbatim>\<open>datetime\<close> is a \<^verbatim>\<open>date\<close> (year, month, day) extended with a time of day, so
  it is a record extension here; every field is a Python integer. The record holds the
  wall-clock fields of a value. Whether the values loaded from the database are aware of a
  time zone is decided for all of them by the setting \<^verbatim>\<open>USE_TZ\<close>, a parameter of the two
  operations where it matters (\<^verbatim>\<open>in_past\<close> and \<^verbatim>\<open>occurrence_duration\<close>), while
  \<^verbatim>\<open>datetime.now()\<close> is always naive. Arithmetic follows the pure-Python implementation
  of the standard library (proleptic Gregorian ordinals), with its \<^verbatim>\<open>OverflowError\<close> when
  a sum leaves the years 1 to 9999.
\<close>

text \<open>The exceptions that the operations and the external calls raise.\<close>

datatype error = TypeError | ValueError | KeyError | OverflowError | NotImplementedError

record date =
  year :: int
  month :: int
  day :: int

record datetime = date +
  hour :: int
  minute :: int
  second :: int
  microsecond :: int

text \<open>Comparison of two \<^verbatim>\<open>datetime\<close> values compares the tuples of their fields.\<close>

definition dt_key :: "datetime \<Rightarrow> int \<times> int \<times> int \<times> int \<times> int \<times> int \<times> int" where
  "dt_key d = (year d, month d, day d, hour d, minute d, second d, microsecond d)"

definition dt_lt :: "datetime \<Rightarrow> datetime \<Rightarrow> bool" where
  "dt_lt a b = (dt_key a < dt_key b)"

definition dt_le :: "datetime \<Rightarrow> datetime \<Rightarrow> bool" where
  "dt_le a b = (dt_key a \<le> dt_key b)"

definition dt_gt :: "datetime \<Rightarrow> datetime \<Rightarrow> bool" where
  "dt_gt a b = (dt_key a > dt_key b)"

definition dt_ge :: "datetime \<Rightarrow> datetime \<Rightarrow> bool" where
  "dt_ge a b = (dt_key a \<ge> dt_key b)"

text \<open>\<^verbatim>\<open>datetime(year, month, day)\<close>: the remaining fields default to zero.\<close>

definition datetime_ymd :: "int \<Rightarrow> int \<Rightarrow> int \<Rightarrow> datetime" where
  "datetime_ymd y m d =
     \<lparr>year = y, month = m, day = d, hour = 0, minute = 0, second = 0, microsecond = 0\<rparr>"

definition is_leap :: "int \<Rightarrow> bool" where
  "is_leap y = (y mod 4 = 0 \<and> (y mod 100 \<noteq> 0 \<or> y mod 400 = 0))"

definition days_before_year :: "int \<Rightarrow> int" where
  "days_before_year yr = (let y = yr - 1 in y * 365 + y div 4 - y div 100 + y div 400)"

definition DAYS_IN_MONTH :: "int list" where
  "DAYS_IN_MONTH = [-1, 31, 28, 31, 30, 31, 30, 31, 31, 30, 31, 30, 31]"

definition DAYS_BEFORE_MONTH :: "int list" where
  "DAYS_BEFORE_MONTH = [-1, 0, 31, 59, 90, 120, 151, 181, 212, 243, 273, 304, 334]"

definition days_before_month :: "int \<Rightarrow> int \<Rightarrow> int" where
  "days_before_month y m =
     DAYS_BEFORE_MONTH ! nat m + (if m > 2 \<and> is_leap y then 1 else 0)"

definition ymd2ord :: "int \<Rightarrow> int \<Rightarrow> int \<Rightarrow> int" where
  "ymd2ord y m d = days_before_year y + days_before_month y m + d"

definition ord2ymd :: "int \<Rightarrow> int \<times> int \<times> int" where
  "ord2ymd ordinal =
     (let n = ordinal - 1;
          n400 = n div 146097; n = n mod 146097;
          n100 = n div 36524; n = n mod 36524;
          n4 = n div 1461; n = n mod 1461;
          n1 = n div 365; n = n mod 365;
          y = n400 * 400 + 1 + n100 * 100 + n4 * 4 + n1
      in if n1 = 4 \<or> n100 = 4 then (y - 1, 12, 31)
         else
           let leapyear = (n1 = 3 \<and> (n4 \<noteq> 24 \<or> n100 = 3));
               m = (n + 50) div 32;
               preceding = DAYS_BEFORE_MONTH ! nat m + (if m > 2 \<and> leapyear then 1 else 0)
           in if preceding > n
              then (y, m - 1,
                    n - (preceding - (DAYS_IN_MONTH ! nat (m - 1)
                                      + (if m - 1 = 2 \<and> leapyear then 1 else 0))) + 1)
              else (y, m, n - preceding + 1))"

definition toordinal :: "'a date_scheme \<Rightarrow> int" where
  "toordinal d = ymd2ord (year d) (month d) (day d)"

text \<open>\<^verbatim>\<open>weekday()\<close>: Monday is 0, Sunday is 6.\<close>

definition weekday :: "'a date_scheme \<Rightarrow> int" where
  "weekday d = (toordinal d + 6) mod 7"

text \<open>
  A \<^verbatim>\<open>timedelta\<close> is kept as its total number of microseconds, which determines its
  normalised (days, seconds, microseconds) triple.
\<close>

type_synonym timedelta = int

definition to_microseconds :: "datetime \<Rightarrow> int" where
  "to_microseconds d =
     ((toordinal d * 86400) + hour d * 3600 + minute d * 60 + second d) * 1000000
       + microsecond d"

definition dt_sub :: "datetime \<Rightarrow> datetime \<Rightarrow> timedelta" where
  "dt_sub a b = to_microseconds a - to_microseconds b"

text \<open>The \<^verbatim>\<open>datetime\<close> that lies a number of microseconds after 0001-01-01 minus one day.\<close>

definition from_microseconds :: "int \<Rightarrow> datetime" where
  "from_microseconds us =
     (let days = us div 86400000000;
          rest = us mod 86400000000;
          secs = rest div 1000000;
          (y, m, dd) = ord2ymd days
      in \<lparr>year = y, month = m, day = dd,
          hour = secs div 3600, minute = (secs mod 3600) div 60, second = secs mod 60,
          microsecond = rest mod 1000000\<rparr>)"

text \<open>
  \<^verbatim>\<open>datetime + timedelta\<close>: the sum is a \<^verbatim>\<open>datetime\<close> when its ordinal day lies in
  \<^verbatim>\<open>1 .. _MAXORDINAL\<close> (0001-01-01 to 9999-12-31), and \<^verbatim>\<open>OverflowError\<close> is raised
  otherwise.
\<close>

definition MAXORDINAL :: int where
  "MAXORDINAL = 3652059"

definition dt_add :: "datetime \<Rightarrow> timedelta \<Rightarrow> error + datetime" where
  "dt_add d delta =
     (let us = to_microseconds d + delta;
          days = us div 86400000000
      in if 0 < days \<and> days \<le> MAXORDINAL then Inr (from_microseconds us)
         else Inl OverflowError)"

section \<open>The data model\<close>

text \<open>
  An \<^verbatim>\<open>Event\<close> carries its primary key and its title; an \<^verbatim>\<open>Occurrence\<close> has an
  optional description, a start and an end time and the event that owns it. The table of
  occurrences is the list of its rows.
\<close>

record Event =
  pk :: nat
  title :: string

record Occurrence =
  description :: "string option"
  start_time :: datetime
  end_time :: datetime
  event :: Event

text \<open>
  \<^verbatim>\<open>Occurrence.title\<close>. The test \<^verbatim>\<open>if self.description\<close> fails for \<^verbatim>\<open>None\<close> and
  for the empty string.
\<close>

definition Occurrence_title :: "Occurrence \<Rightarrow> string" where
  "Occurrence_title self =
     (case description self of
        None \<Rightarrow> title (event self)
      | Some d \<Rightarrow> if d \<noteq> [] then title (event self) @ '' ('' @ d @ '')''
                  else title (event self))"

text \<open>
  \<^verbatim>\<open>Occurrence.in_past\<close>: \<^verbatim>\<open>self.end_time > datetime.now()\<close>, with the current time
  as a parameter. \<^verbatim>\<open>datetime.now()\<close> is naive; when \<^verbatim>\<open>USE_TZ\<close> is on the stored end
  time is aware, and comparing an aware with a naive value raises \<^verbatim>\<open>TypeError\<close>.
\<close>

definition in_past :: "bool \<Rightarrow> datetime \<Rightarrow> Occurrence \<Rightarrow> error + bool" where
  "in_past USE_TZ now self =
     (if USE_TZ then Inl TypeError else Inr (dt_gt (end_time self) now))"

section \<open>Recurrence expansion\<close>

text \<open>
  The keyword arguments \<^verbatim>\<open>**rrule_params\<close> form a dictionary from names to values.
  A key bound to \<^verbatim>\<open>None\<close> is still a key of the dictionary.
\<close>

datatype pvalue = PInt int | PDatetime datetime | PInts "int list" | PNone

type_synonym rrule_params = "string \<rightharpoonup> pvalue"

definition DAILY :: int where
  "DAILY = 3"

definition setdefault :: "rrule_params \<Rightarrow> string \<Rightarrow> pvalue \<Rightarrow> rrule_params" where
  "setdefault params k v = (case params k of None \<Rightarrow> params(k \<mapsto> v) | Some _ \<Rightarrow> params)"

text \<open>
  The call \<^verbatim>\<open>rrule.rrule(dtstart=start_time, **rrule_params)\<close> belongs to an external
  library. It is a parameter of the model: given the start and the keyword arguments it
  gives the timestamps the iterator yields, in order, and the exception that ends the
  iteration, if one does.
\<close>

type_synonym rrule_call = "datetime \<Rightarrow> rrule_params \<Rightarrow> datetime list \<times> error option"

text \<open>\<^verbatim>\<open>self.occurrence_set.create(start_time=..., end_time=...)\<close> inserts one row.\<close>

definition create :: "Event \<Rightarrow> datetime \<Rightarrow> datetime \<Rightarrow> Occurrence list \<Rightarrow> Occurrence list" where
  "create self st en tbl =
     tbl @ [\<lparr>description = None, start_time = st, end_time = en, event = self\<rparr>]"

text \<open>
  The \<^verbatim>\<open>for ev in ...\<close> loop of \<^verbatim>\<open>add_occurrences\<close> over the timestamps that the
  iterator yields; \<^verbatim>\<open>err\<close> is the exception that the iterator raises after the last of
  them, if any. \<^verbatim>\<open>ev + delta\<close> is computed before the row is created, so an
  \<^verbatim>\<open>OverflowError\<close> there ends the loop with the rows created so far.
\<close>

fun create_each ::
  "Event \<Rightarrow> timedelta \<Rightarrow> datetime list \<Rightarrow> error option \<Rightarrow> Occurrence list
     \<Rightarrow> Occurrence list \<times> error option" where
  "create_each self delta [] err tbl = (tbl, err)"
| "create_each self delta (ev # evs) err tbl =
     (case dt_add ev delta of
        Inl e \<Rightarrow> (tbl, Some e)
      | Inr en \<Rightarrow> create_each self delta evs err (create self ev en tbl))"

definition add_occurrences ::
  "rrule_call \<Rightarrow> Event \<Rightarrow> Occurrence list \<Rightarrow> datetime \<Rightarrow> datetime \<Rightarrow> rrule_params
     \<Rightarrow> Occurrence list \<times> error option" where
  "add_occurrences rrule self tbl start_t end_t rrule_params =
     (let rrule_params = setdefault rrule_params ''freq'' (PInt DAILY)
      in if rrule_params ''count'' = None \<and> rrule_params ''until'' = None
         then (create self start_t end_t tbl, None)
         else
           let delta = dt_sub end_t start_t;
               (evs, err) = rrule start_t rrule_params
           in create_each self delta evs err tbl)"

text \<open>
  A reference instance of the external call, used to run the model on concrete rules. It
  covers the rules whose period is a fixed number of seconds (weekly, daily, hourly,
  minutely, secondly) given by \<^verbatim>\<open>freq\<close>, \<^verbatim>\<open>interval\<close>, \<^verbatim>\<open>count\<close> and \<^verbatim>\<open>until\<close>
  alone, and answers as the library does there:
  \<^item> a second \<^verbatim>\<open>dtstart\<close> among the keyword arguments is a \<^verbatim>\<open>TypeError\<close> of the call;
  \<^item> a frequency that is not one of the seven constants is a \<^verbatim>\<open>KeyError\<close> of the first
    iteration;
  \<^item> the microseconds of \<^verbatim>\<open>dtstart\<close> are dropped;
  \<^item> a timestamp after \<^verbatim>\<open>until\<close> ends the iteration, and so does the timestamp after
    the \<^verbatim>\<open>count\<close>-th;
  \<^item> with a positive \<^verbatim>\<open>interval\<close> the timestamps are \<^verbatim>\<open>dtstart + k * interval * period\<close>,
    and the iteration ends silently with the year 9999;
  \<^item> with \<^verbatim>\<open>interval = 0\<close> the start is yielded \<^verbatim>\<open>count\<close> times;
  \<^item> with a negative \<^verbatim>\<open>interval\<close> the start is yielded once and the next step raises
    \<^verbatim>\<open>ValueError\<close>.
  Everything else is outside this reference and is answered by \<^verbatim>\<open>NotImplementedError\<close>
  here: yearly and monthly rules, the \<^verbatim>\<open>by...\<close> filters and \<^verbatim>\<open>wkst\<close>, values of
  another type, and \<^verbatim>\<open>interval = 0\<close> without \<^verbatim>\<open>count\<close>, where the library does not
  return.
\<close>

definition period_of :: "int \<Rightarrow> int option" where
  "period_of f =
     (if f = 2 then Some 604800 else if f = 3 then Some 86400 else if f = 4 then Some 3600
      else if f = 5 then Some 60 else if f = 6 then Some 1 else None)"

definition MAXDATETIME :: datetime where
  "MAXDATETIME = \<lparr>year = 9999, month = 12, day = 31,
                   hour = 23, minute = 59, second = 59, microsecond = 999999\<rparr>"

definition FILTER_KEYS :: "string list" where
  "FILTER_KEYS =
     [''wkst'', ''bysetpos'', ''bymonth'', ''bymonthday'', ''byyearday'', ''byeaster'',
      ''byweekno'', ''byweekday'', ''byhour'', ''byminute'', ''bysecond'', ''cache'']"

text \<open>The optional integer and timestamp arguments; \<^verbatim>\<open>None\<close> stands for the default.\<close>

definition int_arg :: "rrule_params \<Rightarrow> string \<Rightarrow> error + int option" where
  "int_arg params k =
     (case params k of
        None \<Rightarrow> Inr None
      | Some PNone \<Rightarrow> Inr None
      | Some (PInt i) \<Rightarrow> Inr (Some i)
      | Some _ \<Rightarrow> Inl NotImplementedError)"

definition datetime_arg :: "rrule_params \<Rightarrow> string \<Rightarrow> error + datetime option" where
  "datetime_arg params k =
     (case params k of
        None \<Rightarrow> Inr None
      | Some PNone \<Rightarrow> Inr None
      | Some (PDatetime u) \<Rightarrow> Inr (Some u)
      | Some _ \<Rightarrow> Inl NotImplementedError)"

text \<open>The number of timestamps \<^verbatim>\<open>start + k * step\<close> that are not after \<^verbatim>\<open>limit\<close>.\<close>

definition steps_until :: "datetime \<Rightarrow> int \<Rightarrow> datetime \<Rightarrow> int" where
  "steps_until start step limit =
     (if dt_lt limit start then 0 else dt_sub limit start div step + 1)"

definition fixed_period_timestamps ::
  "datetime \<Rightarrow> int \<Rightarrow> int \<Rightarrow> int option \<Rightarrow> datetime option \<Rightarrow> datetime list \<times> error option" where
  "fixed_period_timestamps start period interval count until =
     (let after_until = (case until of None \<Rightarrow> False | Some u \<Rightarrow> dt_gt start u);
          exhausted = (case count of None \<Rightarrow> False | Some c \<Rightarrow> c \<le> 0)
      in if after_until \<or> exhausted then ([], None)
         else if interval < 0 then ([start], Some ValueError)
         else if interval = 0 then
           (case count of
              None \<Rightarrow> ([], Some NotImplementedError)
            | Some c \<Rightarrow> (replicate (nat c) start, None))
         else
           let step = period * interval * 1000000;
               in_range = steps_until start step MAXDATETIME;
               bounded = (case until of
                            None \<Rightarrow> in_range
                          | Some u \<Rightarrow> min in_range (steps_until start step u));
               n = (case count of None \<Rightarrow> bounded | Some c \<Rightarrow> min c bounded)
           in (map (\<lambda>k. from_microseconds (to_microseconds start + int k * step)) [0..<nat n],
               None))"

definition fixed_period_rrule :: rrule_call where
  "fixed_period_rrule dtstart params =
     (if params ''dtstart'' \<noteq> None then ([], Some TypeError)
      else if list_ex (\<lambda>k. params k \<noteq> None) FILTER_KEYS then ([], Some NotImplementedError)
      else case (params ''freq'', int_arg params ''interval'', int_arg params ''count'',
                 datetime_arg params ''until'') of
        (Some (PInt f), Inr interval, Inr count, Inr until) \<Rightarrow>
          (if f = 0 \<or> f = 1 then ([], Some NotImplementedError)
           else case period_of f of
             None \<Rightarrow> ([], Some KeyError)
           | Some p \<Rightarrow>
               fixed_period_timestamps (dtstart\<lparr>microsecond := 0\<rparr>) p
                 (case interval of None \<Rightarrow> 1 | Some i \<Rightarrow> i) count until)
      | _ \<Rightarrow> ([], Some NotImplementedError))"

section \<open>Queries of the occurrence manager\<close>

text \<open>
  A queryset is modelled by the list of rows it evaluates to. The manager's base queryset
  holds every row in the order of \<^verbatim>\<open>Meta.ordering = ('start_time', 'end_time')\<close>;
  \<^verbatim>\<open>filter\<close> returns a new queryset and leaves the one it is called on unchanged.
\<close>

definition ordering ::
  "Occurrence \<Rightarrow> (int \<times> int \<times> int \<times> int \<times> int \<times> int \<times> int)
                  \<times> (int \<times> int \<times> int \<times> int \<times> int \<times> int \<times> int)" where
  "ordering oc = (dt_key (start_time oc), dt_key (end_time oc))"

definition get_queryset :: "Occurrence list \<Rightarrow> Occurrence list" where
  "get_queryset tbl = sort_key ordering tbl"

text \<open>
  \<^verbatim>\<open>OccurrenceManager.upcoming\<close>. \<^verbatim>\<open>start or timezone.now()\<close> takes the current time
  when no start is given. The queryset built from \<^verbatim>\<open>end\<close> is computed and dropped: the
  source does not assign it.
\<close>

definition upcoming ::
  "Occurrence list \<Rightarrow> datetime \<Rightarrow> datetime option \<Rightarrow> datetime option \<Rightarrow> Occurrence list" where
  "upcoming tbl now start endt =
     (let start = (case start of None \<Rightarrow> now | Some s \<Rightarrow> s);
          qs = filter (\<lambda>oc. dt_ge (start_time oc) start) (get_queryset tbl);
          dropped = (case endt of
                       None \<Rightarrow> qs
                     | Some e \<Rightarrow> filter (\<lambda>oc. dt_le (start_time oc) e) qs)
      in qs)"

text \<open>
  \<^verbatim>\<open>OccurrenceManager.daily_occurrences\<close>. The argument is a \<^verbatim>\<open>date\<close>, a
  \<^verbatim>\<open>datetime\<close> or \<^verbatim>\<open>None\<close>; only its year, month and day are read.
\<close>

definition daily_occurrences ::
  "Occurrence list \<Rightarrow> datetime \<Rightarrow> 'a date_scheme option \<Rightarrow> Event option \<Rightarrow> Occurrence list" where
  "daily_occurrences tbl now dt ev =
     (let (y, m, d) = (case dt of
                         None \<Rightarrow> (year now, month now, day now)
                       | Some x \<Rightarrow> (year x, month x, day x));
          start = datetime_ymd y m d;
          endt = start\<lparr>hour := 23, minute := 59, second := 59\<rparr>;
          qs = filter (\<lambda>oc.
                   (dt_ge (start_time oc) start \<and> dt_le (start_time oc) endt)
                 \<or> (dt_ge (end_time oc) start \<and> dt_le (end_time oc) endt)
                 \<or> (dt_lt (start_time oc) start \<and> dt_gt (end_time oc) endt))
                 (get_queryset tbl)
      in case ev of None \<Rightarrow> qs | Some e \<Rightarrow> filter (\<lambda>oc. pk (event oc) = pk e) qs)"

section \<open>Formatting the duration of an occurrence\<close>

text \<open>
  \<^verbatim>\<open>strftime\<close> for the directives the template tag uses, in the C locale: \<^verbatim>\<open>%A\<close> the
  full weekday name, \<^verbatim>\<open>%d\<close> the day of the month in two digits, \<^verbatim>\<open>%B\<close> the full month
  name, \<^verbatim>\<open>%Y\<close> the year as a decimal number without padding, as the C library prints it
  (\<^verbatim>\<open>999\<close> for the year 999), \<^verbatim>\<open>%H\<close> and \<^verbatim>\<open>%M\<close> the hour and the minute in two
  digits. The fields of a \<^verbatim>\<open>datetime\<close> are never negative.
\<close>

definition WEEKDAY_NAMES :: "string list" where
  "WEEKDAY_NAMES =
     [''Monday'', ''Tuesday'', ''Wednesday'', ''Thursday'', ''Friday'', ''Saturday'', ''Sunday'']"

definition MONTH_NAMES :: "string list" where
  "MONTH_NAMES =
     [''January'', ''February'', ''March'', ''April'', ''May'', ''June'', ''July'',
      ''August'', ''September'', ''October'', ''November'', ''December'']"

definition digit_char :: "nat \<Rightarrow> char" where
  "digit_char n = char_of (48 + n)"

function str_nat :: "nat \<Rightarrow> string" where
  "str_nat n = (if n < 10 then [digit_char n] else str_nat (n div 10) @ [digit_char (n mod 10)])"
  by pat_completeness auto
termination
  by (relation "measure id") auto

declare str_nat.simps [simp del]

definition zero_pad :: "nat \<Rightarrow> int \<Rightarrow> string" where
  "zero_pad w i = (let s = str_nat (nat i) in replicate (w - length s) (CHR ''0'') @ s)"

definition directive :: "char \<Rightarrow> datetime \<Rightarrow> string" where
  "directive c d =
     (if c = CHR ''A'' then WEEKDAY_NAMES ! nat (weekday d)
      else if c = CHR ''d'' then zero_pad 2 (day d)
      else if c = CHR ''B'' then MONTH_NAMES ! nat (month d - 1)
      else if c = CHR ''Y'' then str_nat (nat (year d))
      else if c = CHR ''H'' then zero_pad 2 (hour d)
      else if c = CHR ''M'' then zero_pad 2 (minute d)
      else if c = CHR ''%'' then ''%''
      else [CHR ''%'', c])"

fun strftime :: "string \<Rightarrow> datetime \<Rightarrow> string" where
  "strftime [] d = []"
| "strftime [c] d = [c]"
| "strftime (c # x # rest) d =
     (if c = CHR ''%'' then directive x d @ strftime rest d else c # strftime (x # rest) d)"

text \<open>
  \<^verbatim>\<open>timezone.localtime(value)\<close> belongs to the framework. It converts an aware value to
  the current time zone, a conversion that is a parameter here, and raises
  \<^verbatim>\<open>ValueError\<close> on a naive value, which is what the database gives when \<^verbatim>\<open>USE_TZ\<close>
  is off.
\<close>

definition timezone_localtime ::
  "bool \<Rightarrow> (datetime \<Rightarrow> datetime) \<Rightarrow> datetime \<Rightarrow> error + datetime" where
  "timezone_localtime USE_TZ localtime v = (if USE_TZ then Inr (localtime v) else Inl ValueError)"

text \<open>
  The template tag \<^verbatim>\<open>occurrence_duration\<close>. \<^verbatim>\<open>'{:%H:%M}'.format(end)\<close> is
  \<^verbatim>\<open>end.strftime('%H:%M')\<close>.
\<close>

definition occurrence_duration ::
  "bool \<Rightarrow> (datetime \<Rightarrow> datetime) \<Rightarrow> Occurrence \<Rightarrow> error + string" where
  "occurrence_duration USE_TZ localtime occurrence =
     (case timezone_localtime USE_TZ localtime (start_time occurrence) of
        Inl e \<Rightarrow> Inl e
      | Inr start \<Rightarrow>
          (case timezone_localtime USE_TZ localtime (end_time occurrence) of
             Inl e \<Rightarrow> Inl e
           | Inr endt \<Rightarrow>
               let result = strftime ''%A, %d %B %Y %H:%M'' start
               in if day start = day endt \<and> month start = month endt \<and> year start = year endt
                  then Inr (result @ '' - '' @ strftime ''%H:%M'' endt)
                  else Inr (result @ '' - '' @ strftime ''%A, %d %B %Y %H:%M'' endt)))"

section \<open>The specification's vocabulary\<close>

text \<open>
  The day window of the specification, written from its words: midnight of a day and the
  second 23:59:59 of that day.
\<close>

definition spec_midnight :: "'a date_scheme \<Rightarrow> datetime" where
  "spec_midnight D = \<lparr>year = year D, month = month D, day = day D,
                      hour = 0, minute = 0, second = 0, microsecond = 0\<rparr>"

definition spec_last_second :: "'a date_scheme \<Rightarrow> datetime" where
  "spec_last_second D = \<lparr>year = year D, month = month D, day = day D,
                         hour = 23, minute = 59, second = 59, microsecond = 0\<rparr>"

text \<open>
  The two layouts of the specification: \<^verbatim>\<open>Weekday, DD Month YYYY HH:MM\<close> and
  \<^verbatim>\<open>HH:MM\<close>.
\<close>

definition spec_long_format :: "datetime \<Rightarrow> string" where
  "spec_long_format d =
     WEEKDAY_NAMES ! nat (weekday d) @ '', '' @ zero_pad 2 (day d) @ '' ''
       @ MONTH_NAMES ! nat (month d - 1) @ '' '' @ zero_pad 4 (year d) @ '' ''
       @ zero_pad 2 (hour d) @ '':'' @ zero_pad 2 (minute d)"

definition spec_short_format :: "datetime \<Rightarrow> string" where
  "spec_short_format d = zero_pad 2 (hour d) @ '':'' @ zero_pad 2 (minute d)"

section \<open>The rows of one expansion\<close>

text \<open>
  The row for one timestamp of the generator, and the test that the end of that row is a
  \<^verbatim>\<open>datetime\<close>, that is, that \<^verbatim>\<open>ev + delta\<close> does not raise.
\<close>

definition new_occurrence :: "Event \<Rightarrow> timedelta \<Rightarrow> datetime \<Rightarrow> Occurrence" where
  "new_occurrence self delta ev =
     \<lparr>description = None, start_time = ev,
      end_time = from_microseconds (to_microseconds ev + delta), event = self\<rparr>"

definition end_representable :: "timedelta \<Rightarrow> datetime \<Rightarrow> bool" where
  "end_representable delta ev = (case dt_add ev delta of Inl _ \<Rightarrow> False | Inr _ \<Rightarrow> True)"

section \<open>Concrete values\<close>

text \<open>\<^verbatim>\<open>datetime(y, m, d, h, mi, s)\<close>, an event and an occurrence of it without description.\<close>

definition datetime_of :: "int \<Rightarrow> int \<Rightarrow> int \<Rightarrow> int \<Rightarrow> int \<Rightarrow> int \<Rightarrow> datetime" where
  "datetime_of y m d h mi s =
     \<lparr>year = y, month = m, day = d, hour = h, minute = mi, second = s, microsecond = 0\<rparr>"

definition meeting :: Event where
  "meeting = \<lparr>pk = 1, title = ''Meeting''\<rparr>"

definition span :: "Event \<Rightarrow> datetime \<Rightarrow> datetime \<Rightarrow> Occurrence" where
  "span e a b = \<lparr>description = None, start_time = a, end_time = b, event = e\<rparr>"

section \<open>Supporting lemmas\<close>

lemma dt_ge_le: "dt_ge a b = dt_le b a"
  by (simp add: dt_ge_def dt_le_def)

lemma dt_gt_lt: "dt_gt a b = dt_lt b a"
  by (simp add: dt_gt_def dt_lt_def)

lemma dt_lt_not_le: "dt_lt a b = (\<not> dt_le b a)"
  by (auto simp: dt_lt_def dt_le_def)

lemma dt_key_inject: "dt_key a = dt_key b \<Longrightarrow> a = b"
  by (simp add: dt_key_def)

lemma dt_le_antisym: "dt_le a b \<Longrightarrow> dt_le b a \<Longrightarrow> a = b"
  by (rule dt_key_inject) (simp add: dt_le_def)

lemma datetime_of_fields:
  "year (datetime_of y m d h mi s) = y" "month (datetime_of y m d h mi s) = m"
  "day (datetime_of y m d h mi s) = d" "hour (datetime_of y m d h mi s) = h"
  "minute (datetime_of y m d h mi s) = mi" "second (datetime_of y m d h mi s) = s"
  "microsecond (datetime_of y m d h mi s) = 0"
  by (simp_all add: datetime_of_def)

lemmas example_defs = datetime_of_def meeting_def span_def

subsection \<open>Recurrence expansion\<close>

lemma setdefault_other: "k' \<noteq> k \<Longrightarrow> setdefault params k v k' = params k'"
  by (simp add: setdefault_def split: option.splits)

lemma setdefault_present: "setdefault params k v k \<noteq> None"
  by (simp add: setdefault_def split: option.splits)

lemma dt_add_cases:
  "dt_add ev delta = Inl OverflowError
   \<or> dt_add ev delta = Inr (from_microseconds (to_microseconds ev + delta))"
  by (simp add: dt_add_def Let_def)

lemma end_representable_iff:
  "end_representable delta ev
     \<longleftrightarrow> dt_add ev delta = Inr (from_microseconds (to_microseconds ev + delta))"
  using dt_add_cases [of ev delta] by (auto simp: end_representable_def)

lemma not_end_representable_iff:
  "\<not> end_representable delta ev \<longleftrightarrow> dt_add ev delta = Inl OverflowError"
  using dt_add_cases [of ev delta] by (auto simp: end_representable_def)

text \<open>
  The loop adds the rows of the timestamps before the first whose end overflows, and ends
  with \<^verbatim>\<open>OverflowError\<close> there, or with what the iterator raises when none overflows.
\<close>

lemma create_each_rows:
  "create_each self delta evs err tbl =
     (tbl @ map (new_occurrence self delta) (takeWhile (end_representable delta) evs),
      if list_all (end_representable delta) evs then err else Some OverflowError)"
proof (induction evs arbitrary: tbl)
  case Nil
  show ?case by simp
next
  case (Cons ev evs)
  show ?case
  proof (cases "end_representable delta ev")
    case True
    then have "dt_add ev delta = Inr (from_microseconds (to_microseconds ev + delta))"
      by (simp add: end_representable_iff)
    with True show ?thesis
      by (simp add: Cons.IH create_def new_occurrence_def)
  next
    case False
    then have "dt_add ev delta = Inl OverflowError"
      by (simp add: not_end_representable_iff)
    with False show ?thesis by simp
  qed
qed





subsection \<open>Queries\<close>

lemma set_get_queryset: "set (get_queryset tbl) = set tbl"
  by (simp add: get_queryset_def)

lemma sorted_get_queryset: "sorted (map ordering (get_queryset tbl))"
  by (simp add: get_queryset_def)

lemma upcoming_set:
  "set (upcoming tbl now start endt) =
     {oc \<in> set tbl. dt_le (case start of None \<Rightarrow> now | Some s \<Rightarrow> s) (start_time oc)}"
  by (auto simp: upcoming_def set_get_queryset dt_ge_le Let_def)

text \<open>The upper bound never reaches the result: any two values of it give the same rows.\<close>

lemma upcoming_end_unused: "upcoming tbl now start endt = upcoming tbl now start endt'"
  by (simp add: upcoming_def Let_def)

lemma upcoming_sorted: "sorted (map ordering (upcoming tbl now start endt))"
  by (simp add: upcoming_def Let_def sorted_filter sorted_get_queryset)

subsection \<open>The state of an occurrence\<close>

text \<open>
  On naive stored times \<^verbatim>\<open>in_past\<close> is true exactly when the end time is strictly after
  the current time, and false exactly when the end time is at or before it; on aware stored
  times it raises for every occurrence.
\<close>

lemma in_past_naive:
  "in_past False now self = Inr (dt_lt now (end_time self))"
  "in_past False now self = Inr (\<not> dt_le (end_time self) now)"
  by (auto simp: in_past_def dt_gt_def dt_lt_def dt_le_def)

lemma in_past_aware: "in_past True now self = Inl TypeError"
  by (simp add: in_past_def)

subsection \<open>Formatting\<close>

lemma strftime_long:
  "strftime ''%A, %d %B %Y %H:%M'' d =
     WEEKDAY_NAMES ! nat (weekday d) @ '', '' @ zero_pad 2 (day d) @ '' ''
       @ MONTH_NAMES ! nat (month d - 1) @ '' '' @ str_nat (nat (year d)) @ '' ''
       @ zero_pad 2 (hour d) @ '':'' @ zero_pad 2 (minute d)"
  by (simp add: directive_def)

lemma strftime_short: "strftime ''%H:%M'' d = spec_short_format d"
  by (simp add: spec_short_format_def directive_def)

text \<open>A field below \<^verbatim>\<open>10 ^ w\<close> fills exactly \<^verbatim>\<open>w\<close> characters: DD, HH, MM and YYYY.\<close>

lemma str_nat_length_le: "0 < k \<Longrightarrow> n < 10 ^ k \<Longrightarrow> length (str_nat n) \<le> k"
proof (induction k arbitrary: n)
  case 0
  then show ?case by simp
next
  case (Suc k)
  show ?case
  proof (cases "n < 10")
    case True
    then show ?thesis by (simp add: str_nat.simps)
  next
    case False
    with Suc.prems have "0 < k" by (cases k) simp_all
    moreover from Suc.prems have "n div 10 < 10 ^ k"
      by (simp add: less_mult_imp_div_less mult.commute)
    ultimately have "length (str_nat (n div 10)) \<le> k" by (rule Suc.IH)
    with False show ?thesis by (subst str_nat.simps) simp
  qed
qed

lemma zero_pad_length: "0 < w \<Longrightarrow> 0 \<le> i \<Longrightarrow> i < 10 ^ w \<Longrightarrow> length (zero_pad w i) = w"
proof -
  assume w: "0 < w" and i: "0 \<le> i" "i < 10 ^ w"
  from i have "nat i < 10 ^ w"
    by (simp add: nat_less_iff)
  with w have "length (str_nat (nat i)) \<le> w" by (rule str_nat_length_le)
  then show ?thesis by (simp add: zero_pad_def Let_def)
qed

text \<open>A year of at least four digits is printed alike with and without padding.\<close>

lemma str_nat_length_gt: "10 ^ k \<le> n \<Longrightarrow> k < length (str_nat n)"
proof (induction k arbitrary: n)
  case 0
  show ?case by (subst str_nat.simps) simp
next
  case (Suc k)
  then have "10 ^ k \<le> n div 10"
    by (simp add: less_eq_div_iff_mult_less_eq mult.commute)
  then have "k < length (str_nat (n div 10))" by (rule Suc.IH)
  moreover from Suc.prems have "\<not> n < 10"
    by (metis le_trans not_less one_le_numeral one_le_power power_Suc mult.right_neutral
              mult_le_mono2)
  ultimately show ?case by (subst str_nat.simps) simp
qed

lemma zero_pad_4_year: "1000 \<le> y \<Longrightarrow> zero_pad 4 y = str_nat (nat y)"
proof -
  assume "1000 \<le> y"
  then have "10 ^ 3 \<le> nat y" by simp
  then have "3 < length (str_nat (nat y))" by (rule str_nat_length_gt)
  then show ?thesis by (simp add: zero_pad_def Let_def)
qed

lemma strftime_long_spec:
  "1000 \<le> year d \<Longrightarrow> strftime ''%A, %d %B %Y %H:%M'' d = spec_long_format d"
  by (simp only: strftime_long spec_long_format_def zero_pad_4_year)

lemma spec_long_format_example1:
  "spec_long_format (datetime_of 2024 1 1 9 0 0) = ''Monday, 01 January 2024 09:00''"
  by code_simp

lemma spec_long_format_example2:
  "spec_long_format (datetime_of 2024 2 1 0 0 0) = ''Thursday, 01 February 2024 00:00''"
  by code_simp

lemma spec_short_format_example:
  "spec_short_format (datetime_of 2024 1 1 10 0 0) = ''10:00''"
  by code_simp

section \<open>The claims\<close>

text \<open>
  C1. When the rule has neither a \<^verbatim>\<open>count\<close> nor an \<^verbatim>\<open>until\<close> key,
  \<^verbatim>\<open>add_occurrences\<close> adds exactly one occurrence to the table, with the given start
  and end time, and raises nothing, whatever the other keys of the rule and whatever the
  generator would do.
\<close>

theorem add_occurrences_unbounded_single:
  assumes "rrule_params ''count'' = None" and "rrule_params ''until'' = None"
  shows "add_occurrences rrule self tbl start_t end_t rrule_params =
           (tbl @ [\<lparr>description = None, start_time = start_t, end_time = end_t, event = self\<rparr>],
            None)"
  using assms by (simp add: add_occurrences_def setdefault_other create_def)

text \<open>C1 on a weekly rule with an interval of three and no bound.\<close>

theorem add_occurrences_unbounded_single_witness:
  "add_occurrences fixed_period_rrule meeting []
      (datetime_of 2024 1 1 9 0 0) (datetime_of 2024 1 1 10 0 0)
      [''freq'' \<mapsto> PInt 2, ''interval'' \<mapsto> PInt 3]
   = ([span meeting (datetime_of 2024 1 1 9 0 0) (datetime_of 2024 1 1 10 0 0)], None)"
  using add_occurrences_unbounded_single
          [of "[''freq'' \<mapsto> PInt 2, ''interval'' \<mapsto> PInt 3]" fixed_period_rrule meeting "[]"
              "datetime_of 2024 1 1 9 0 0" "datetime_of 2024 1 1 10 0 0"]
  by (simp add: span_def)

text \<open>
  C2. \<^verbatim>\<open>upcoming\<close> with an upper bound still returns an occurrence that starts after
  the bound: with the reference time 2024-01-01 and the horizon 2024-02-01, the occurrence
  of 2024-06-01 is in the result.
\<close>

theorem upcoming_ignores_end:
  "upcoming [span meeting (datetime_of 2024 6 1 9 0 0) (datetime_of 2024 6 1 10 0 0)]
      (datetime_of 2024 1 1 0 0 0)
      (Some (datetime_of 2024 1 1 0 0 0)) (Some (datetime_of 2024 2 1 0 0 0))
   = [span meeting (datetime_of 2024 6 1 9 0 0) (datetime_of 2024 6 1 10 0 0)]
   \<and> dt_gt (start_time (span meeting (datetime_of 2024 6 1 9 0 0) (datetime_of 2024 6 1 10 0 0)))
            (datetime_of 2024 2 1 0 0 0)"
  by (simp add: upcoming_def get_queryset_def dt_ge_def dt_gt_def dt_key_def example_defs)




text \<open>
  C4, as the code has it. \<^verbatim>\<open>add_occurrences\<close> checks nothing itself. When the rule has
  a \<^verbatim>\<open>count\<close> or an \<^verbatim>\<open>until\<close> key (or both), it hands the rule, with the frequency
  defaulted to daily, to the generator and appends one row for each timestamp that the
  generator yields, up to the first whose end overflows, where it raises
  \<^verbatim>\<open>OverflowError\<close>; when no end overflows it raises what the generator raises, and
  nothing when the generator raises nothing.
\<close>

theorem add_occurrences_bounded_delegates:
  assumes "rrule_params ''count'' \<noteq> None \<or> rrule_params ''until'' \<noteq> None"
  shows "add_occurrences rrule self tbl start_t end_t rrule_params =
           (let delta = dt_sub end_t start_t;
                generated = rrule start_t (setdefault rrule_params ''freq'' (PInt DAILY))
            in (tbl @ map (new_occurrence self delta)
                          (takeWhile (end_representable delta) (fst generated)),
                if list_all (end_representable delta) (fst generated) then snd generated
                else Some OverflowError))"
  using assms
  by (auto simp: add_occurrences_def setdefault_other create_each_rows Let_def
           split: prod.splits)

text \<open>
  C4 from 9999-12-30 09:00 to 9999-12-31 10:00 with \<^verbatim>\<open>count = 2\<close>: the first row is
  added, the end of the second would lie in the year 10000, and \<^verbatim>\<open>OverflowError\<close> is
  raised.
\<close>

theorem add_occurrences_bounded_delegates_witness:
  "add_occurrences fixed_period_rrule meeting []
      (datetime_of 9999 12 30 9 0 0) (datetime_of 9999 12 31 10 0 0) [''count'' \<mapsto> PInt 2]
   = ([span meeting (datetime_of 9999 12 30 9 0 0) (datetime_of 9999 12 31 10 0 0)],
      Some OverflowError)"
proof -
  have bounded: "[''count'' \<mapsto> PInt 2] ''count'' \<noteq> None \<or> [''count'' \<mapsto> PInt 2] ''until'' \<noteq> None"
    by simp
  have "(let delta = dt_sub (datetime_of 9999 12 31 10 0 0) (datetime_of 9999 12 30 9 0 0);
             generated = fixed_period_rrule (datetime_of 9999 12 30 9 0 0)
                           (setdefault [''count'' \<mapsto> PInt 2] ''freq'' (PInt DAILY))
         in ([] @ map (new_occurrence meeting delta)
                      (takeWhile (end_representable delta) (fst generated)),
             if list_all (end_representable delta) (fst generated) then snd generated
             else Some OverflowError))
        = ([span meeting (datetime_of 9999 12 30 9 0 0) (datetime_of 9999 12 31 10 0 0)],
           Some OverflowError)"
    by code_simp
  with add_occurrences_bounded_delegates [OF bounded, of fixed_period_rrule meeting "[]"
         "datetime_of 9999 12 30 9 0 0" "datetime_of 9999 12 31 10 0 0"]
  show ?thesis by (simp only:)
qed

text \<open>
  C4 as stated fails: with \<^verbatim>\<open>count = 3\<close> and \<^verbatim>\<open>until = 2024-02-01\<close> together
  nothing is raised and three occurrences are added; and a rule with the unknown
  frequency 99 and no bound adds its single occurrence and raises nothing.
\<close>

theorem add_occurrences_count_and_until_counterexample:
  "add_occurrences fixed_period_rrule meeting []
      (datetime_of 2024 1 1 9 0 0) (datetime_of 2024 1 1 10 0 0)
      [''count'' \<mapsto> PInt 3, ''until'' \<mapsto> PDatetime (datetime_of 2024 2 1 0 0 0)]
   = ([span meeting (datetime_of 2024 1 1 9 0 0) (datetime_of 2024 1 1 10 0 0),
       span meeting (datetime_of 2024 1 2 9 0 0) (datetime_of 2024 1 2 10 0 0),
       span meeting (datetime_of 2024 1 3 9 0 0) (datetime_of 2024 1 3 10 0 0)], None)
   \<and> add_occurrences fixed_period_rrule meeting []
      (datetime_of 2024 1 1 9 0 0) (datetime_of 2024 1 1 10 0 0) [''freq'' \<mapsto> PInt 99]
   = ([span meeting (datetime_of 2024 1 1 9 0 0) (datetime_of 2024 1 1 10 0 0)], None)"
  by code_simp

text \<open>
  C5. An occurrence is in the result of \<^verbatim>\<open>daily_occurrences\<close> for the day \<^verbatim>\<open>D\<close>
  exactly when it is stored and its start time lies between midnight and 23:59:59 of
  \<^verbatim>\<open>D\<close>, or its end time does, or it starts strictly before midnight and ends strictly
  after 23:59:59, and, when an event is given, it belongs to that event.
\<close>

theorem daily_occurrences_iff:
  "oc \<in> set (daily_occurrences tbl now (Some D) ev) \<longleftrightarrow>
     oc \<in> set tbl
     \<and> ((dt_le (spec_midnight D) (start_time oc) \<and> dt_le (start_time oc) (spec_last_second D))
        \<or> (dt_le (spec_midnight D) (end_time oc) \<and> dt_le (end_time oc) (spec_last_second D))
        \<or> (dt_lt (start_time oc) (spec_midnight D) \<and> dt_lt (spec_last_second D) (end_time oc)))
     \<and> (case ev of None \<Rightarrow> True | Some e \<Rightarrow> pk (event oc) = pk e)"
  by (cases ev)
     (auto simp: daily_occurrences_def set_get_queryset datetime_ymd_def spec_midnight_def
                 spec_last_second_def dt_ge_le dt_gt_lt Let_def)

text \<open>
  C5 on the day 2024-03-15: the occurrence from 03-10 to 03-20 and the one from 08:00 to
  09:00 of that day are returned, the one from 03-16 to 03-17 is not.
\<close>

theorem daily_occurrences_iff_witness:
  "span meeting (datetime_of 2024 3 10 0 0 0) (datetime_of 2024 3 20 0 0 0)
     \<in> set (daily_occurrences
                [span meeting (datetime_of 2024 3 10 0 0 0) (datetime_of 2024 3 20 0 0 0),
                 span meeting (datetime_of 2024 3 15 8 0 0) (datetime_of 2024 3 15 9 0 0),
                 span meeting (datetime_of 2024 3 16 0 0 0) (datetime_of 2024 3 17 0 0 0)]
                (datetime_of 2024 1 1 0 0 0) (Some \<lparr>year = 2024, month = 3, day = 15\<rparr>) None)
   \<and> span meeting (datetime_of 2024 3 15 8 0 0) (datetime_of 2024 3 15 9 0 0)
     \<in> set (daily_occurrences
                [span meeting (datetime_of 2024 3 10 0 0 0) (datetime_of 2024 3 20 0 0 0),
                 span meeting (datetime_of 2024 3 15 8 0 0) (datetime_of 2024 3 15 9 0 0),
                 span meeting (datetime_of 2024 3 16 0 0 0) (datetime_of 2024 3 17 0 0 0)]
                (datetime_of 2024 1 1 0 0 0) (Some \<lparr>year = 2024, month = 3, day = 15\<rparr>) None)
   \<and> span meeting (datetime_of 2024 3 16 0 0 0) (datetime_of 2024 3 17 0 0 0)
     \<notin> set (daily_occurrences
                [span meeting (datetime_of 2024 3 10 0 0 0) (datetime_of 2024 3 20 0 0 0),
                 span meeting (datetime_of 2024 3 15 8 0 0) (datetime_of 2024 3 15 9 0 0),
                 span meeting (datetime_of 2024 3 16 0 0 0) (datetime_of 2024 3 17 0 0 0)]
                (datetime_of 2024 1 1 0 0 0) (Some \<lparr>year = 2024, month = 3, day = 15\<rparr>) None)"
  by (simp add: daily_occurrences_iff spec_midnight_def spec_last_second_def dt_le_def dt_lt_def
                dt_key_def example_defs)

text \<open>
  C6. \<^verbatim>\<open>upcoming\<close> with the reference time \<^verbatim>\<open>T\<close> returns every stored occurrence
  that starts exactly at \<^verbatim>\<open>T\<close> and none that starts strictly before \<^verbatim>\<open>T\<close>; without
  a reference time it answers as for the current time.
\<close>

theorem upcoming_reference_time:
  "(oc \<in> set tbl \<and> start_time oc = T \<longrightarrow> oc \<in> set (upcoming tbl now (Some T) endt))
   \<and> (dt_lt (start_time oc) T \<longrightarrow> oc \<notin> set (upcoming tbl now (Some T) endt))
   \<and> upcoming tbl now None endt = upcoming tbl now (Some now) endt"
  by (auto simp: upcoming_set dt_le_def dt_lt_def) (simp add: upcoming_def)

text \<open>
  C6 at \<^verbatim>\<open>T\<close> = 2024-05-01 12:00:00: the occurrence starting at \<^verbatim>\<open>T\<close> is returned,
  the one starting one second earlier is not.
\<close>

theorem upcoming_reference_time_witness:
  "span meeting (datetime_of 2024 5 1 12 0 0) (datetime_of 2024 5 1 13 0 0)
     \<in> set (upcoming [span meeting (datetime_of 2024 5 1 11 59 59) (datetime_of 2024 5 1 13 0 0),
                       span meeting (datetime_of 2024 5 1 12 0 0) (datetime_of 2024 5 1 13 0 0)]
                      (datetime_of 2024 1 1 0 0 0) (Some (datetime_of 2024 5 1 12 0 0)) None)
   \<and> span meeting (datetime_of 2024 5 1 11 59 59) (datetime_of 2024 5 1 13 0 0)
     \<notin> set (upcoming [span meeting (datetime_of 2024 5 1 11 59 59) (datetime_of 2024 5 1 13 0 0),
                       span meeting (datetime_of 2024 5 1 12 0 0) (datetime_of 2024 5 1 13 0 0)]
                      (datetime_of 2024 1 1 0 0 0) (Some (datetime_of 2024 5 1 12 0 0)) None)"
  using upcoming_reference_time
          [of "span meeting (datetime_of 2024 5 1 12 0 0) (datetime_of 2024 5 1 13 0 0)"
              "[span meeting (datetime_of 2024 5 1 11 59 59) (datetime_of 2024 5 1 13 0 0),
                span meeting (datetime_of 2024 5 1 12 0 0) (datetime_of 2024 5 1 13 0 0)]"
              "datetime_of 2024 5 1 12 0 0" "datetime_of 2024 1 1 0 0 0" None]
        upcoming_reference_time
          [of "span meeting (datetime_of 2024 5 1 11 59 59) (datetime_of 2024 5 1 13 0 0)"
              "[span meeting (datetime_of 2024 5 1 11 59 59) (datetime_of 2024 5 1 13 0 0),
                span meeting (datetime_of 2024 5 1 12 0 0) (datetime_of 2024 5 1 13 0 0)]"
              "datetime_of 2024 5 1 12 0 0" "datetime_of 2024 1 1 0 0 0" None]
  by (simp add: dt_lt_def dt_key_def example_defs)

text \<open>
  C7. \<^verbatim>\<open>daily_occurrences\<close> of a timestamp is \<^verbatim>\<open>daily_occurrences\<close> of its date, and
  changing the time of day of the timestamp does not change the result.
\<close>

theorem daily_occurrences_date_only:
  "daily_occurrences tbl now (Some dt) ev =
     daily_occurrences tbl now (Some \<lparr>year = year dt, month = month dt, day = day dt\<rparr>) ev
   \<and> daily_occurrences tbl now
        (Some (dt\<lparr>hour := h, minute := mi, second := s, microsecond := us\<rparr>)) ev =
     daily_occurrences tbl now (Some dt) ev"
  by (simp add: daily_occurrences_def)

text \<open>C7 at the timestamp 2024-03-15 13:45:10.\<close>

theorem daily_occurrences_date_only_witness:
  "daily_occurrences [span meeting (datetime_of 2024 3 15 8 0 0) (datetime_of 2024 3 15 9 0 0)]
      (datetime_of 2024 1 1 0 0 0) (Some (datetime_of 2024 3 15 13 45 10)) None
   = daily_occurrences [span meeting (datetime_of 2024 3 15 8 0 0) (datetime_of 2024 3 15 9 0 0)]
      (datetime_of 2024 1 1 0 0 0) (Some \<lparr>year = 2024, month = 3, day = 15\<rparr>) None"
  using daily_occurrences_date_only
          [of "[span meeting (datetime_of 2024 3 15 8 0 0) (datetime_of 2024 3 15 9 0 0)]"
              "datetime_of 2024 1 1 0 0 0" "datetime_of 2024 3 15 13 45 10" None]
  by (simp add: datetime_of_def)

text \<open>
  C8, as the code has it. When the stored times are aware (\<^verbatim>\<open>USE_TZ\<close> on) and the
  years of the local start and end have four digits, the text of
  \<^verbatim>\<open>occurrence_duration\<close> is the long layout \<^verbatim>\<open>Weekday, DD Month YYYY HH:MM\<close> of the
  local start, \<^verbatim>\<open>" - "\<close>, and then the short layout \<^verbatim>\<open>HH:MM\<close> of the local end when
  the local start and end have the same day, month and year, the long layout of the local
  end otherwise.
\<close>

theorem occurrence_duration_format:
  assumes "1000 \<le> year (localtime (start_time oc))"
    and "1000 \<le> year (localtime (end_time oc))"
  shows "occurrence_duration True localtime oc =
     Inr (let s = localtime (start_time oc); e = localtime (end_time oc)
          in spec_long_format s @ '' - ''
               @ (if day s = day e \<and> month s = month e \<and> year s = year e
                  then spec_short_format e else spec_long_format e))"
proof -
  let ?s = "localtime (start_time oc)" and ?e = "localtime (end_time oc)"
  have long_s: "strftime ''%A, %d %B %Y %H:%M'' ?s = spec_long_format ?s"
    using assms(1) by (rule strftime_long_spec)
  have long_e: "strftime ''%A, %d %B %Y %H:%M'' ?e = spec_long_format ?e"
    using assms(2) by (rule strftime_long_spec)
  have "occurrence_duration True localtime oc =
      (if day ?s = day ?e \<and> month ?s = month ?e \<and> year ?s = year ?e
       then Inr (strftime ''%A, %d %B %Y %H:%M'' ?s @ '' - '' @ strftime ''%H:%M'' ?e)
       else Inr (strftime ''%A, %d %B %Y %H:%M'' ?s @ '' - ''
                   @ strftime ''%A, %d %B %Y %H:%M'' ?e))"
    by (simp only: occurrence_duration_def timezone_localtime_def if_True sum.case Let_def)
  then show ?thesis
    by (simp only: long_s long_e strftime_short Let_def if_distrib [of Inr]
                   if_distrib [of "\<lambda>x. spec_long_format ?s @ '' - '' @ x"])
qed

text \<open>C8 on an occurrence within one day and on one that ends a month later.\<close>

theorem occurrence_duration_format_witness:
  "occurrence_duration True (\<lambda>t. t)
      (span meeting (datetime_of 2024 1 1 9 0 0) (datetime_of 2024 1 1 10 0 0))
     = Inr ''Monday, 01 January 2024 09:00 - 10:00''
   \<and> occurrence_duration True (\<lambda>t. t)
      (span meeting (datetime_of 2024 1 1 9 0 0) (datetime_of 2024 2 1 0 0 0))
     = Inr ''Monday, 01 January 2024 09:00 - Thursday, 01 February 2024 00:00''"
  using occurrence_duration_format
          [of "\<lambda>t. t" "span meeting (datetime_of 2024 1 1 9 0 0) (datetime_of 2024 1 1 10 0 0)"]
        occurrence_duration_format
          [of "\<lambda>t. t" "span meeting (datetime_of 2024 1 1 9 0 0) (datetime_of 2024 2 1 0 0 0)"]
  by (simp add: span_def spec_long_format_example1 spec_long_format_example2
                spec_short_format_example datetime_of_fields)

text \<open>
  C8 as stated fails. The year 999 is printed in three digits, where the layout
  \<^verbatim>\<open>YYYY\<close> has \<^verbatim>\<open>0999\<close>; and on naive stored times (\<^verbatim>\<open>USE_TZ\<close> off) the tag raises
  \<^verbatim>\<open>ValueError\<close> and gives no text.
\<close>

theorem occurrence_duration_format_counterexample:
  "occurrence_duration True (\<lambda>t. t)
      (span meeting (datetime_of 999 3 5 7 8 0) (datetime_of 999 3 5 8 8 0))
     = Inr ''Tuesday, 05 March 999 07:08 - 08:08''
   \<and> spec_long_format (datetime_of 999 3 5 7 8 0) = ''Tuesday, 05 March 0999 07:08''
   \<and> occurrence_duration False (\<lambda>t. t)
      (span meeting (datetime_of 2024 1 1 9 0 0) (datetime_of 2024 1 1 10 0 0))
     = Inl ValueError"
  by code_simp

text \<open>
  C9. The title of an occurrence is the title of its event when the occurrence has no
  description (none, or the empty text), and the title of its event followed by the
  description in parentheses when the description is not empty.
\<close>

theorem Occurrence_title_cases:
  "(description oc = None \<or> description oc = Some [] \<longrightarrow> Occurrence_title oc = title (event oc))
   \<and> (\<forall>d. description oc = Some d \<and> d \<noteq> [] \<longrightarrow>
          Occurrence_title oc = title (event oc) @ '' ('' @ d @ '')'')"
  by (auto simp: Occurrence_title_def)

text \<open>C9 on an occurrence without description and on one described as "room 2".\<close>

theorem Occurrence_title_cases_witness:
  "Occurrence_title (span meeting (datetime_of 2024 3 15 8 0 0) (datetime_of 2024 3 15 9 0 0))
     = ''Meeting''
   \<and> Occurrence_title
       ((span meeting (datetime_of 2024 3 15 8 0 0) (datetime_of 2024 3 15 9 0 0))
          \<lparr>description := Some ''room 2''\<rparr>)
     = ''Meeting (room 2)''"
  using Occurrence_title_cases
          [of "span meeting (datetime_of 2024 3 15 8 0 0) (datetime_of 2024 3 15 9 0 0)"]
        Occurrence_title_cases
          [of "(span meeting (datetime_of 2024 3 15 8 0 0) (datetime_of 2024 3 15 9 0 0))
                 \<lparr>description := Some ''room 2''\<rparr>"]
  by (simp add: example_defs)

text \<open>
  C10. On aware stored times (\<^verbatim>\<open>USE_TZ\<close> on) \<^verbatim>\<open>in_past\<close> returns no truth value: for
  an occurrence that ends at 13:00 of 2024-03-15, asked at 12:00 of that day, it raises
  \<^verbatim>\<open>TypeError\<close>, although the end time is strictly after the current time.
\<close>

theorem in_past_aware_raises:
  "in_past True (datetime_of 2024 3 15 12 0 0)
      (span meeting (datetime_of 2024 3 15 11 0 0) (datetime_of 2024 3 15 13 0 0))
     = Inl TypeError
   \<and> dt_lt (datetime_of 2024 3 15 12 0 0)
        (end_time (span meeting (datetime_of 2024 3 15 11 0 0) (datetime_of 2024 3 15 13 0 0)))"
  by (simp add: in_past_def dt_lt_def dt_key_def example_defs)

end
